theory Spec2Isabelle
  imports Main
begin

section \<open>The host page: nodes, events, listeners, timers\<close>

text \<open>
  The sensor of \<^verbatim>\<open>TouchSensor.js\<close> runs inside a browser page. The parts of the
  page its handlers read or write are made explicit: the nodes listeners are bound to
  (the global \<^verbatim>\<open>document\<close> and the elements), the listener table, the timer table
  of \<^verbatim>\<open>setTimeout\<close>/\<^verbatim>\<open>clearTimeout\<close>, and the native touch events.
\<close>

datatype node = Document | Element nat

text \<open>The event type strings the source passes to \<^verbatim>\<open>addEventListener\<close>.\<close>

datatype evtype = touchstart | touchmove | touchend | touchcancel | scroll | contextmenu

text \<open>
  The callbacks the source registers. Each is bound once (in the constructor, or at module
  level for \<^verbatim>\<open>onContextMenu\<close>), so a callback is identified by its name.
\<close>

datatype callback = OnTouchStart | OnTouchMove | OnTouchEnd | OnScroll | OnContextMenu

text \<open>A touch point. Coordinates are modelled as integers (CSS pixels).\<close>

record touch =
  pageX :: int
  pageY :: int

text \<open>
  A native touch event, with the fields the handlers read (\<^verbatim>\<open>target\<close>,
  \<^verbatim>\<open>currentTarget\<close>, \<^verbatim>\<open>touches\<close>, \<^verbatim>\<open>changedTouches\<close>) and the two
  flags they set through \<^verbatim>\<open>preventDefault()\<close> and \<^verbatim>\<open>stopPropagation()\<close>.
\<close>

record touch_event =
  target :: node
  currentTarget :: node
  touches :: "touch list"
  changedTouches :: "touch list"
  defaultPrevented :: bool
  propagationStopped :: bool

definition preventDefault :: "touch_event \<Rightarrow> touch_event" where
  "preventDefault event = event\<lparr>defaultPrevented := True\<rparr>"

definition stopPropagation :: "touch_event \<Rightarrow> touch_event" where
  "stopPropagation event = event\<lparr>propagationStopped := True\<rparr>"

text \<open>
  The argument object of the three sensor events: \<^verbatim>\<open>{clientX, clientY, target,
  container, originalEvent}\<close>. The fields \<^verbatim>\<open>target\<close> and \<^verbatim>\<open>container\<close> may be
  \<^verbatim>\<open>null\<close>.
\<close>

record sensor_data =
  clientX :: int
  clientY :: int
  target :: "node option"
  container :: "node option"
  originalEvent :: touch_event

datatype sensor_event =
    DragStartSensorEvent sensor_data
  | DragMoveSensorEvent sensor_data
  | DragStopSensorEvent sensor_data

text \<open>
  The layout queries of the page: the nodes \<^verbatim>\<open>closest\<close> visits from an element
  (nearest first), the two heights compared at line 81, \<^verbatim>\<open>document.elementFromPoint\<close>
  and the window scroll offset.
\<close>

record page =
  chain :: "node \<Rightarrow> node list"
  offsetHeight :: "node \<Rightarrow> int"
  scrollHeight :: "node \<Rightarrow> int"
  elementFromPoint :: "int \<Rightarrow> int \<Rightarrow> node option"
  scrollX :: int
  scrollY :: int

text \<open>
  Modelled from the spec: the \<^verbatim>\<open>closest\<close> utility of \<^verbatim>\<open>shared/utils\<close> is not
  part of the source at hand. The spec describes it as taking an element and either a list
  of candidate containers or a predicate, and returning the nearest matching ancestor or
  none. Both uses are a search for the first node of the element's chain that satisfies a
  predicate.
\<close>

definition closest :: "page \<Rightarrow> node \<Rightarrow> (node \<Rightarrow> bool) \<Rightarrow> node option" where
  "closest pg element selector = find selector (chain pg element)"

section \<open>The sensor and the state it runs in\<close>

text \<open>
  One record holds the instance fields of the sensor (\<^verbatim>\<open>containers\<close>,
  \<^verbatim>\<open>options.delay\<close>, \<^verbatim>\<open>currentContainer\<close>, \<^verbatim>\<open>currentScrollableParent\<close>,
  \<^verbatim>\<open>dragging\<close>, \<^verbatim>\<open>tapTimeout\<close>) and the host tables its handlers mutate: the
  listener table, the pending timers with the closure each one will run, the next timer
  handle, and the sensor events passed to \<^verbatim>\<open>trigger\<close> so far.
  An unset field (\<^verbatim>\<open>undefined\<close> or \<^verbatim>\<open>null\<close>) is \<open>None\<close>; an unset
  \<^verbatim>\<open>dragging\<close> is falsy, so it is \<open>False\<close>.
\<close>

record world =
  containers :: "node list"
  delay :: "nat option"
  currentContainer :: "node option"
  currentScrollableParent :: "node option"
  dragging :: bool
  tapTimeout :: "nat option"
  listeners :: "(node \<times> evtype \<times> callback) set"
  timers :: "nat \<rightharpoonup> (touch_event \<times> node)"
  nextTimer :: nat
  triggered :: "(node option \<times> sensor_event) list"

text \<open>
  \<^verbatim>\<open>addEventListener\<close> does not add a listener that is already registered for the
  same node, type and callback, and \<^verbatim>\<open>removeEventListener\<close> of an unregistered one
  does nothing: the table is a set. The \<^verbatim>\<open>passive\<close> option is not part of a
  listener's identity.
\<close>

definition addEventListener :: "node \<Rightarrow> evtype \<Rightarrow> callback \<Rightarrow> world \<Rightarrow> world" where
  "addEventListener n ty cb w = w\<lparr>listeners := insert (n, ty, cb) (listeners w)\<rparr>"

definition removeEventListener :: "node \<Rightarrow> evtype \<Rightarrow> callback \<Rightarrow> world \<Rightarrow> world" where
  "removeEventListener n ty cb w = w\<lparr>listeners := listeners w - {(n, ty, cb)}\<rparr>"

text \<open>
  \<^verbatim>\<open>setTimeout\<close> stores the closure under a fresh handle and returns the handle;
  \<^verbatim>\<open>clearTimeout\<close> drops the timer of a handle, and does nothing for an unset handle
  or one whose timer is gone. The closure built by \<^verbatim>\<open>onTouchHold(event, container)\<close>
  is the pair of the values it captures. Time is not modelled: the delay is passed as in
  the source and a pending timer may fire at any later step.
\<close>

definition setTimeout :: "touch_event \<times> node \<Rightarrow> nat option \<Rightarrow> world \<Rightarrow> nat \<times> world" where
  "setTimeout closure ms w =
     (nextTimer w, w\<lparr>timers := (timers w)(nextTimer w \<mapsto> closure), nextTimer := Suc (nextTimer w)\<rparr>)"

definition clearTimeout :: "nat option \<Rightarrow> world \<Rightarrow> world" where
  "clearTimeout handle w =
     (case handle of None \<Rightarrow> w | Some t \<Rightarrow> w\<lparr>timers := (timers w)(t := None)\<rparr>)"

text \<open>
  Modelled from the spec: \<^verbatim>\<open>trigger\<close> belongs to the base class \<^verbatim>\<open>Sensor\<close>,
  which is not part of the source at hand. The spec describes it as dispatching the sensor
  event to the listeners bound to the container. The model records the call; whether a
  listener cancels a start event is an input of the step that dispatches it.
\<close>

definition trigger :: "node option \<Rightarrow> sensor_event \<Rightarrow> world \<Rightarrow> world" where
  "trigger element sensorEvent w = w\<lparr>triggered := triggered w @ [(element, sensorEvent)]\<rparr>"

text \<open>
  \<^verbatim>\<open>event.touches[0] || event.changedTouches[0]\<close>: the first active touch point, else
  the first changed one, else \<^verbatim>\<open>undefined\<close>.
\<close>

definition first_touch :: "touch_event \<Rightarrow> touch option" where
  "first_touch event =
     (case touches event of
        t # _ \<Rightarrow> Some t
      | [] \<Rightarrow> (case changedTouches event of c # _ \<Rightarrow> Some c | [] \<Rightarrow> None))"

text \<open>
  Reading \<^verbatim>\<open>touch.pageX\<close> of an undefined \<^verbatim>\<open>touch\<close> throws. A fault ends the
  handler; the state the page is left in after a fault is not followed.
\<close>

datatype fault = TypeError

section \<open>The handlers\<close>

text \<open>
  The handlers keep the source's names. A local variable the source calls
  \<^verbatim>\<open>container\<close> or \<^verbatim>\<open>target\<close> is written with a prime, since the plain name
  is the field of the sensor event.
\<close>

definition attach :: "world \<Rightarrow> world" where
  "attach w = addEventListener Document touchstart OnTouchStart w"

definition detach :: "world \<Rightarrow> world" where
  "detach w = removeEventListener Document touchstart OnTouchStart w"

definition onScroll :: "world \<Rightarrow> world" where
  "onScroll w = clearTimeout (tapTimeout w) w"

definition onContextMenu :: "touch_event \<Rightarrow> touch_event" where
  "onContextMenu event = preventDefault event"

definition onTouchStart :: "page \<Rightarrow> touch_event \<Rightarrow> world \<Rightarrow> touch_event \<times> world" where
  "onTouchStart pg event w =
     (case closest pg (touch_event.target event) (\<lambda>n. n \<in> set (containers w)) of
        None \<Rightarrow> (event, w)
      | Some container' \<Rightarrow>
          let event1 = preventDefault event;
              w1 = addEventListener Document scroll OnScroll w;
              w2 = addEventListener container' contextmenu OnContextMenu w1;
              w3 = w2\<lparr>currentContainer := Some container'\<rparr>;
              w4 = w3\<lparr>currentScrollableParent :=
                      closest pg container' (\<lambda>element. offsetHeight pg element < scrollHeight pg element)\<rparr>;
              w5 = (case currentScrollableParent w4 of
                      Some p \<Rightarrow> addEventListener p scroll OnScroll w4
                    | None \<Rightarrow> w4);
              (handle, w6) = setTimeout (event1, container') (delay w5) w5
          in (event1, w6\<lparr>tapTimeout := Some handle\<rparr>))"

text \<open>
  The closure returned by \<^verbatim>\<open>onTouchHold(event, container)\<close>, run when the timer
  fires. \<open>canceled\<close> is what \<^verbatim>\<open>dragStartEvent.canceled()\<close> returns after the
  listeners have seen the event.
\<close>

definition onTouchHold :: "touch_event \<Rightarrow> node \<Rightarrow> bool \<Rightarrow> world \<Rightarrow> fault + world" where
  "onTouchHold event container' canceled w =
     (case first_touch event of
        None \<Rightarrow> Inl TypeError
      | Some touch \<Rightarrow>
          let dragStartEvent = DragStartSensorEvent
                \<lparr>clientX = pageX touch, clientY = pageY touch,
                 target = Some (touch_event.target event), container = Some container',
                 originalEvent = event\<rparr>;
              w1 = trigger (Some container') dragStartEvent w;
              w2 = w1\<lparr>currentContainer := Some container'\<rparr>;
              w3 = w2\<lparr>dragging := \<not> canceled\<rparr>
          in Inr (if dragging w3
                  then addEventListener Document touchmove OnTouchMove
                         (addEventListener Document touchcancel OnTouchEnd
                           (addEventListener Document touchend OnTouchEnd w3))
                  else w3))"

definition onTouchMove :: "page \<Rightarrow> touch_event \<Rightarrow> world \<Rightarrow> fault + touch_event \<times> world" where
  "onTouchMove pg event w =
     (if \<not> dragging w then Inr (event, w)
      else
        let event1 = preventDefault (stopPropagation event) in
        case first_touch event1 of
          None \<Rightarrow> Inl TypeError
        | Some touch \<Rightarrow>
            let target' = elementFromPoint pg (pageX touch - scrollX pg) (pageY touch - scrollY pg);
                dragMoveEvent = DragMoveSensorEvent
                  \<lparr>clientX = pageX touch, clientY = pageY touch,
                   target = target', container = currentContainer w,
                   originalEvent = event1\<rparr>
            in Inr (event1, trigger (currentContainer w) dragMoveEvent w))"

definition onTouchEnd :: "touch_event \<Rightarrow> world \<Rightarrow> fault + touch_event \<times> world" where
  "onTouchEnd event w =
     (if \<not> dragging w then Inr (event, w)
      else
        let container' = currentTarget event;
            w1 = removeEventListener Document scroll OnScroll w;
            w2 = removeEventListener container' contextmenu OnContextMenu w1;
            w3 = (case currentScrollableParent w2 of
                    Some p \<Rightarrow> removeEventListener p scroll OnScroll w2
                  | None \<Rightarrow> w2);
            w4 = clearTimeout (tapTimeout w3) w3
        in if \<not> dragging w4 then Inr (event, w4)
           else
             case first_touch event of
               None \<Rightarrow> Inl TypeError
             | Some touch \<Rightarrow>
                 let event1 = preventDefault event;
                     dragStopEvent = DragStopSensorEvent
                       \<lparr>clientX = pageX touch, clientY = pageY touch,
                        target = None, container = currentContainer w4,
                        originalEvent = event1\<rparr>;
                     w5 = trigger (currentContainer w4) dragStopEvent w4;
                     w6 = removeEventListener Document touchend OnTouchEnd w5;
                     w7 = removeEventListener Document touchcancel OnTouchEnd w6;
                     w8 = removeEventListener Document touchmove OnTouchMove w7
                 in Inr (event1, w8\<lparr>currentContainer := None, dragging := False\<rparr>))"

section \<open>Delivery of host events to the registered handlers\<close>

text \<open>
  What the page can do to the sensor: deliver a native touch event, which reaches the
  handlers registered on the document for its type with \<^verbatim>\<open>currentTarget\<close> set to the
  document; scroll a node, which runs the scroll listener registered on that node; and fire
  a pending timer, telling whether a listener cancels the start event it dispatches. A
  handle with no pending timer does not fire. A fired timer leaves the timer table.
\<close>

datatype input =
    Touch evtype touch_event
  | ScrollAt node
  | TimerFires nat bool

definition deliver :: "page \<Rightarrow> input \<Rightarrow> world \<Rightarrow> fault + world" where
  "deliver pg i w =
     (case i of
        Touch ty event \<Rightarrow>
          let event0 = event\<lparr>currentTarget := Document\<rparr> in
          if ty = touchstart \<and> (Document, touchstart, OnTouchStart) \<in> listeners w
            then Inr (snd (onTouchStart pg event0 w))
          else if ty = touchmove \<and> (Document, touchmove, OnTouchMove) \<in> listeners w
            then map_sum id snd (onTouchMove pg event0 w)
          else if (ty = touchend \<or> ty = touchcancel) \<and> (Document, ty, OnTouchEnd) \<in> listeners w
            then map_sum id snd (onTouchEnd event0 w)
          else Inr w
      | ScrollAt n \<Rightarrow>
          if (n, scroll, OnScroll) \<in> listeners w then Inr (onScroll w) else Inr w
      | TimerFires t canceled \<Rightarrow>
          (case timers w t of
             None \<Rightarrow> Inr w
           | Some (event, container') \<Rightarrow>
               onTouchHold event container' canceled (w\<lparr>timers := (timers w)(t := None)\<rparr>)))"

text \<open>A run delivers the inputs in order and stops at the first fault.\<close>

fun run :: "page \<Rightarrow> input list \<Rightarrow> world \<Rightarrow> fault + world" where
  "run pg [] w = Inr w"
| "run pg (i # is) w =
     (case deliver pg i w of Inl e \<Rightarrow> Inl e | Inr w' \<Rightarrow> run pg is w')"

text \<open>
  The inputs a gesture consists of once its long-press timer has fired: touch events other
  than touch-start, and scrolls.
\<close>

fun touch_or_scroll :: "input \<Rightarrow> bool" where
  "touch_or_scroll (Touch ty event) = (ty \<noteq> touchstart)"
| "touch_or_scroll (ScrollAt n) = True"
| "touch_or_scroll (TimerFires t canceled) = False"

section \<open>A concrete page\<close>

text \<open>
  A page on which the theorems below are exercised: element 4 lies in the registered
  container, element 3, which lies in element 2, whose content is higher than its box;
  element 9 lies in no container. The window is scrolled down by 50 pixels.
\<close>

definition example_page :: page where
  "example_page =
     \<lparr>chain = (\<lambda>n. if n = Element 4 then [Element 4, Element 3, Element 2]
                    else if n = Element 3 then [Element 3, Element 2]
                    else [n]),
      offsetHeight = (\<lambda>n. 100),
      scrollHeight = (\<lambda>n. if n = Element 2 then 500 else 100),
      elementFromPoint =
        (\<lambda>x y. if 0 \<le> x \<and> x < 100 \<and> 0 \<le> y \<and> y < 100 then Some (Element 4) else None),
      scrollX = 0, scrollY = 50\<rparr>"

text \<open>A freshly constructed sensor for the container, before \<^verbatim>\<open>attach()\<close>.\<close>

definition example_sensor :: world where
  "example_sensor =
     \<lparr>containers = [Element 3], delay = Some 100, currentContainer = None,
      currentScrollableParent = None, dragging = False, tapTimeout = None,
      listeners = {}, timers = Map.empty, nextTimer = 1, triggered = []\<rparr>"

text \<open>A touch event with one active touch point, and one whose only point has lifted.\<close>

definition touch_at :: "node \<Rightarrow> int \<Rightarrow> int \<Rightarrow> touch_event" where
  "touch_at n x y =
     \<lparr>touch_event.target = n, currentTarget = Document,
      touches = [\<lparr>pageX = x, pageY = y\<rparr>], changedTouches = [\<lparr>pageX = x, pageY = y\<rparr>],
      defaultPrevented = False, propagationStopped = False\<rparr>"

definition lift_at :: "node \<Rightarrow> int \<Rightarrow> int \<Rightarrow> touch_event" where
  "lift_at n x y =
     \<lparr>touch_event.target = n, currentTarget = Document,
      touches = [], changedTouches = [\<lparr>pageX = x, pageY = y\<rparr>],
      defaultPrevented = False, propagationStopped = False\<rparr>"

text \<open>A touch event with no touch point at all.\<close>

definition no_touch :: "node \<Rightarrow> touch_event" where
  "no_touch n =
     \<lparr>touch_event.target = n, currentTarget = Document, touches = [], changedTouches = [],
      defaultPrevented = False, propagationStopped = False\<rparr>"

text \<open>
  The attached sensor after a touch-start on element 4 at (10, 10); then after the
  long-press timer has fired, with the start event not canceled and canceled.
\<close>

definition example_pending :: world where
  "example_pending =
     snd (onTouchStart example_page (touch_at (Element 4) 10 10) (attach example_sensor))"

definition example_dragging :: world where
  "example_dragging = projr (deliver example_page (TimerFires 1 False) example_pending)"

definition example_canceled :: world where
  "example_canceled = projr (deliver example_page (TimerFires 1 True) example_pending)"

section \<open>Facts about the handlers\<close>

text \<open>
  The touch point the handlers read: it is missing exactly when both touch lists are
  empty, and otherwise it is the first active point, or the first changed point when no
  point is active. The two flag setters do not touch the lists.
\<close>

lemma first_touch_None: "first_touch event = None \<longleftrightarrow> touches event = [] \<and> changedTouches event = []"
  by (simp add: first_touch_def split: list.splits)

lemma first_touch_Some:
  "touches event \<noteq> [] \<or> changedTouches event \<noteq> [] \<Longrightarrow>
   first_touch event = Some (if touches event \<noteq> [] then hd (touches event) else hd (changedTouches event))"
  by (auto simp add: first_touch_def split: list.splits)

lemma first_touch_flags [simp]:
  "first_touch (preventDefault event) = first_touch event"
  "first_touch (stopPropagation event) = first_touch event"
  by (simp_all add: first_touch_def preventDefault_def stopPropagation_def split: list.splits)

text \<open>
  A touch-start whose chain holds no registered container finds none.
\<close>

lemma closest_None: "set (chain pg element) \<inter> set cs = {} \<Longrightarrow> closest pg element (\<lambda>n. n \<in> set cs) = None"
  by (auto simp add: closest_def find_None_iff)

text \<open>
  A touch-start that finds a container: the state it leaves, as one equation and field
  by field.
\<close>

lemma onTouchStart_Some:
  assumes "closest pg (touch_event.target event) (\<lambda>n. n \<in> set (containers w0)) = Some c"
  shows "onTouchStart pg event w0 =
    (preventDefault event,
     w0\<lparr>currentContainer := Some c,
        currentScrollableParent :=
          closest pg c (\<lambda>element. offsetHeight pg element < scrollHeight pg element),
        tapTimeout := Some (nextTimer w0),
        listeners :=
          (case closest pg c (\<lambda>element. offsetHeight pg element < scrollHeight pg element) of
             Some p \<Rightarrow> insert (p, scroll, OnScroll)
           | None \<Rightarrow> id)
            (insert (c, contextmenu, OnContextMenu) (insert (Document, scroll, OnScroll) (listeners w0))),
        timers := (timers w0)(nextTimer w0 \<mapsto> (preventDefault event, c)),
        nextTimer := Suc (nextTimer w0)\<rparr>)"
  using assms
  by (simp add: onTouchStart_def Let_def addEventListener_def setTimeout_def split: option.splits)

lemma onTouchStart_matched:
  assumes "closest pg (touch_event.target event) (\<lambda>n. n \<in> set (containers w0)) = Some c"
    and "onTouchStart pg event w0 = (event1, w)"
  shows "event1 = preventDefault event"
    and "currentContainer w = Some c"
    and "currentScrollableParent w =
           closest pg c (\<lambda>element. offsetHeight pg element < scrollHeight pg element)"
    and "tapTimeout w = Some (nextTimer w0)"
    and "timers w = (timers w0)(nextTimer w0 \<mapsto> (event1, c))"
    and "nextTimer w = Suc (nextTimer w0)"
    and "dragging w = dragging w0"
    and "triggered w = triggered w0"
    and "containers w = containers w0"
    and "listeners w = listeners w0 \<union> {(Document, scroll, OnScroll), (c, contextmenu, OnContextMenu)}
           \<union> (case currentScrollableParent w of Some p \<Rightarrow> {(p, scroll, OnScroll)} | None \<Rightarrow> {})"
proof -
  from assms(2) have "event1 = fst (onTouchStart pg event w0)"
    and w: "w = snd (onTouchStart pg event w0)" by simp_all
  then have e: "event1 = preventDefault event"
    by (simp only: onTouchStart_Some [OF assms(1)] fst_conv)
  note ws = w [unfolded onTouchStart_Some [OF assms(1)] snd_conv]
  show "event1 = preventDefault event" by (rule e)
  show "currentContainer w = Some c" by (simp add: ws)
  show "currentScrollableParent w =
           closest pg c (\<lambda>element. offsetHeight pg element < scrollHeight pg element)"
    by (simp add: ws)
  show "tapTimeout w = Some (nextTimer w0)" by (simp add: ws)
  show "timers w = (timers w0)(nextTimer w0 \<mapsto> (event1, c))" by (simp add: ws e)
  show "nextTimer w = Suc (nextTimer w0)" by (simp add: ws)
  show "dragging w = dragging w0" by (simp add: ws)
  show "triggered w = triggered w0" by (simp add: ws)
  show "containers w = containers w0" by (simp add: ws)
  show "listeners w = listeners w0 \<union> {(Document, scroll, OnScroll), (c, contextmenu, OnContextMenu)}
           \<union> (case currentScrollableParent w of Some p \<Rightarrow> {(p, scroll, OnScroll)} | None \<Rightarrow> {})"
    by (auto simp add: ws split: option.splits)
qed

text \<open>
  The closure run by the timer, when it does not fault: one start event is dispatched to
  the container, \<^verbatim>\<open>dragging\<close> is the negation of the canceled flag, and the three
  touch listeners are added only when the event was not canceled.
\<close>

lemma onTouchHold_result:
  assumes "onTouchHold event c canceled w0 = Inr w"
  shows "\<exists>t. first_touch event = Some t
     \<and> triggered w = triggered w0 @
           [(Some c,
             DragStartSensorEvent
               \<lparr>clientX = pageX t, clientY = pageY t, target = Some (touch_event.target event),
                container = Some c, originalEvent = event\<rparr>)]"
    and "dragging w = (\<not> canceled)"
    and "currentContainer w = Some c"
    and "listeners w =
           (if canceled then listeners w0
            else listeners w0 \<union> {(Document, touchend, OnTouchEnd), (Document, touchcancel, OnTouchEnd),
                                   (Document, touchmove, OnTouchMove)})"
    and "timers w = timers w0"
    and "tapTimeout w = tapTimeout w0"
    and "nextTimer w = nextTimer w0"
    and "currentScrollableParent w = currentScrollableParent w0"
    and "containers w = containers w0"
  using assms
  by (auto simp add: onTouchHold_def Let_def trigger_def addEventListener_def
      split: option.splits)

text \<open>
  The two guards on \<^verbatim>\<open>dragging\<close>, and the state a genuine end leaves.
\<close>

lemma onTouchMove_not_dragging: "\<not> dragging w \<Longrightarrow> onTouchMove pg event w = Inr (event, w)"
  by (simp add: onTouchMove_def)

lemma onTouchEnd_not_dragging: "\<not> dragging w \<Longrightarrow> onTouchEnd event w = Inr (event, w)"
  by (simp add: onTouchEnd_def)

lemma onTouchEnd_Some:
  assumes "dragging w" and "first_touch event = Some t"
  shows "onTouchEnd event w =
    Inr (preventDefault event,
      w\<lparr>listeners :=
           (case currentScrollableParent w of
              Some p \<Rightarrow> listeners w - {(Document, scroll, OnScroll)}
                          - {(currentTarget event, contextmenu, OnContextMenu)} - {(p, scroll, OnScroll)}
            | None \<Rightarrow> listeners w - {(Document, scroll, OnScroll)}
                        - {(currentTarget event, contextmenu, OnContextMenu)})
             - {(Document, touchend, OnTouchEnd)} - {(Document, touchcancel, OnTouchEnd)}
             - {(Document, touchmove, OnTouchMove)},
         timers := (case tapTimeout w of Some h \<Rightarrow> (timers w)(h := None) | None \<Rightarrow> timers w),
         triggered := triggered w @
           [(currentContainer w,
             DragStopSensorEvent
               \<lparr>clientX = pageX t, clientY = pageY t, target = None,
                container = currentContainer w, originalEvent = preventDefault event\<rparr>)],
         currentContainer := None, dragging := False\<rparr>)"
  using assms
  by (simp add: onTouchEnd_def Let_def removeEventListener_def clearTimeout_def trigger_def
      split: option.splits)

lemma onTouchEnd_dragging:
  assumes "dragging w" and "first_touch event = Some t"
  shows "\<exists>w'. onTouchEnd event w = Inr (preventDefault event, w')
     \<and> triggered w' = triggered w @
           [(currentContainer w,
             DragStopSensorEvent
               \<lparr>clientX = pageX t, clientY = pageY t, target = None,
                container = currentContainer w, originalEvent = preventDefault event\<rparr>)]
     \<and> listeners w' =
           listeners w
             - {(Document, scroll, OnScroll), (currentTarget event, contextmenu, OnContextMenu),
                (Document, touchend, OnTouchEnd), (Document, touchcancel, OnTouchEnd),
                (Document, touchmove, OnTouchMove)}
             - (case currentScrollableParent w of Some p \<Rightarrow> {(p, scroll, OnScroll)} | None \<Rightarrow> {})
     \<and> timers w' = (case tapTimeout w of Some h \<Rightarrow> (timers w)(h := None) | None \<Rightarrow> timers w)
     \<and> currentContainer w' = None
     \<and> dragging w' = False
     \<and> currentScrollableParent w' = currentScrollableParent w
     \<and> tapTimeout w' = tapTimeout w
     \<and> nextTimer w' = nextTimer w
     \<and> containers w' = containers w"
  by (cases "currentScrollableParent w")
    (auto simp add: onTouchEnd_Some [OF assms])

text \<open>
  The end handler removes the context-menu suppressor from \<^verbatim>\<open>event.currentTarget\<close>
  only: the suppressor of any other node stays registered.
\<close>

lemma onTouchEnd_keeps_suppressor:
  assumes "dragging w" and "first_touch event = Some t"
    and "c \<noteq> currentTarget event" and "(c, contextmenu, OnContextMenu) \<in> listeners w"
  shows "\<exists>w'. onTouchEnd event w = Inr (preventDefault event, w')
     \<and> (c, contextmenu, OnContextMenu) \<in> listeners w'"
  using assms(3,4)
  by (cases "currentScrollableParent w") (simp_all add: onTouchEnd_Some [OF assms(1,2)])

text \<open>
  The scroll handler changes the timer table only, and nothing at all when the held
  handle has no pending timer.
\<close>

lemma onScroll_fields:
  "dragging (onScroll w) = dragging w"
  "triggered (onScroll w) = triggered w"
  "listeners (onScroll w) = listeners w"
  "currentContainer (onScroll w) = currentContainer w"
  "currentScrollableParent (onScroll w) = currentScrollableParent w"
  "tapTimeout (onScroll w) = tapTimeout w"
  "nextTimer (onScroll w) = nextTimer w"
  "containers (onScroll w) = containers w"
  by (simp_all add: onScroll_def clearTimeout_def split: option.splits)

lemma onScroll_idle:
  "\<forall>t. tapTimeout w = Some t \<longrightarrow> timers w t = None \<Longrightarrow> onScroll w = w"
  by (auto simp add: onScroll_def clearTimeout_def fun_upd_idem split: option.splits)

lemma only_timers_fields:
  assumes "w' = w\<lparr>timers := x\<rparr>"
  shows "dragging w' = dragging w"
    and "triggered w' = triggered w"
    and "currentContainer w' = currentContainer w"
    and "listeners w' = listeners w"
    and "currentScrollableParent w' = currentScrollableParent w"
    and "tapTimeout w' = tapTimeout w"
  using assms by simp_all

text \<open>
  While \<^verbatim>\<open>dragging\<close> is false, touch events other than touch-start and scrolls
  change at most the timer table.
\<close>

lemma deliver_not_dragging:
  assumes "\<not> dragging w" and "touch_or_scroll i"
  shows "deliver pg i w = Inr w \<or> deliver pg i w = Inr (onScroll w)"
  using assms
  by (cases i) (auto simp add: deliver_def Let_def onTouchEnd_not_dragging onTouchMove_not_dragging)

lemma run_not_dragging:
  assumes "\<not> dragging w" and "list_all touch_or_scroll is"
  shows "\<exists>w'. run pg is w = Inr w' \<and> w' = w\<lparr>timers := timers w'\<rparr>"
  using assms
proof (induction "is" arbitrary: w)
  case Nil
  then show ?case by simp
next
  case (Cons i "is")
  from Cons.prems have nd: "\<not> dragging w" and ti: "touch_or_scroll i"
    and rest: "list_all touch_or_scroll is" by simp_all
  from deliver_not_dragging [OF nd ti, of pg]
  consider "deliver pg i w = Inr w" | "deliver pg i w = Inr (onScroll w)" by blast
  then show ?case
  proof cases
    case 1
    with Cons.IH [OF nd rest] show ?thesis by simp
  next
    case 2
    have "\<not> dragging (onScroll w)" using nd by (simp add: onScroll_fields)
    from Cons.IH [OF this rest] obtain w' where
      r: "run pg is (onScroll w) = Inr w'" and e: "w' = (onScroll w)\<lparr>timers := timers w'\<rparr>"
      by blast
    have "(onScroll w)\<lparr>timers := x\<rparr> = w\<lparr>timers := x\<rparr>" for x
      by (simp add: onScroll_def clearTimeout_def split: option.splits)
    with e have "w' = w\<lparr>timers := timers w'\<rparr>" by simp
    with 2 r show ?thesis by simp
  qed
qed

lemma run_idle:
  assumes "\<not> dragging w" and "\<forall>t. tapTimeout w = Some t \<longrightarrow> timers w t = None"
    and "list_all touch_or_scroll is"
  shows "run pg is w = Inr w"
  using assms(3)
proof (induction "is")
  case Nil
  then show ?case by simp
next
  case (Cons i "is")
  with deliver_not_dragging [OF assms(1), of i pg] onScroll_idle [OF assms(2)]
  show ?case by auto
qed

text \<open>
  Timer handles are never reused: a handle below \<^verbatim>\<open>nextTimer\<close> with no pending
  timer stays so through every step.
\<close>

lemma deliver_TimerFires:
  "timers w t = Some (event, c) \<Longrightarrow>
   deliver pg (TimerFires t canceled) w = onTouchHold event c canceled (w\<lparr>timers := (timers w)(t := None)\<rparr>)"
  "timers w t = None \<Longrightarrow> deliver pg (TimerFires t canceled) w = Inr w"
  by (simp_all add: deliver_def)

lemma onTouchStart_timers:
  assumes "onTouchStart pg event w = (event1, w')" and "timers w t = None" and "t < nextTimer w"
  shows "timers w' t = None \<and> t < nextTimer w'"
  using assms
  by (auto simp add: onTouchStart_def Let_def addEventListener_def setTimeout_def
      split: option.splits)

lemma onTouchMove_timers:
  assumes "onTouchMove pg event w = Inr (event1, w')"
  shows "timers w' = timers w \<and> nextTimer w' = nextTimer w"
  using assms
  by (auto simp add: onTouchMove_def Let_def trigger_def split: if_splits option.splits)

lemma onTouchEnd_timers:
  assumes "onTouchEnd event w = Inr (event1, w')" and "timers w t = None"
  shows "timers w' t = None \<and> nextTimer w' = nextTimer w"
  using assms
  by (auto simp add: onTouchEnd_def Let_def trigger_def removeEventListener_def clearTimeout_def
      split: if_splits option.splits)

lemma onScroll_timers:
  "timers w t = None \<Longrightarrow> timers (onScroll w) t = None"
  by (simp add: onScroll_def clearTimeout_def split: option.splits)

lemma deliver_timers:
  assumes "deliver pg i w = Inr w'" and "timers w t = None" and "t < nextTimer w"
  shows "timers w' t = None \<and> t < nextTimer w'"
proof (cases i)
  case (Touch ty event)
  let ?e = "event\<lparr>currentTarget := Document\<rparr>"
  let ?start = "ty = touchstart \<and> (Document, touchstart, OnTouchStart) \<in> listeners w"
  let ?move = "ty = touchmove \<and> (Document, touchmove, OnTouchMove) \<in> listeners w"
  let ?fin = "(ty = touchend \<or> ty = touchcancel) \<and> (Document, ty, OnTouchEnd) \<in> listeners w"
  from assms(1) Touch
  have d: "(if ?start then Inr (snd (onTouchStart pg ?e w))
            else if ?move then map_sum id snd (onTouchMove pg ?e w)
            else if ?fin then map_sum id snd (onTouchEnd ?e w)
            else Inr w) = Inr w'"
    by (simp only: deliver_def input.case Let_def)
  consider (start) "w' = snd (onTouchStart pg ?e w)"
    | (move) "map_sum id snd (onTouchMove pg ?e w) = Inr w'"
    | (fin) "map_sum id snd (onTouchEnd ?e w) = Inr w'"
    | (none) "w' = w"
  proof (cases ?start)
    case True
    with d have "w' = snd (onTouchStart pg ?e w)" by auto
    then show ?thesis by (rule start)
  next
    case ns: False
    show ?thesis
    proof (cases ?move)
      case True
      with d ns have "map_sum id snd (onTouchMove pg ?e w) = Inr w'" by simp
      then show ?thesis by (rule move)
    next
      case nm: False
      show ?thesis
      proof (cases ?fin)
        case True
        with d ns nm have "map_sum id snd (onTouchEnd ?e w) = Inr w'"
          by simp
        then show ?thesis by (rule fin)
      next
        case False
        with d ns nm have "w' = w" by auto
        then show ?thesis by (rule none)
      qed
    qed
  qed
  then show ?thesis
  proof cases
    case start
    then have "onTouchStart pg ?e w = (fst (onTouchStart pg ?e w), w')" by simp
    from onTouchStart_timers [OF this assms(2,3)] show ?thesis .
  next
    case move
    then obtain e1 where "onTouchMove pg ?e w = Inr (e1, w')"
      by (cases "onTouchMove pg ?e w") auto
    from onTouchMove_timers [OF this] assms(2,3) show ?thesis by simp
  next
    case fin
    then obtain e1 where "onTouchEnd ?e w = Inr (e1, w')"
      by (cases "onTouchEnd ?e w") auto
    from onTouchEnd_timers [OF this assms(2)] assms(3) show ?thesis by simp
  next
    case none
    with assms(2,3) show ?thesis by simp
  qed
next
  case (ScrollAt n)
  with assms(1) have "w' = w \<or> w' = onScroll w"
    by (auto simp add: deliver_def split: if_splits)
  with assms(2,3) onScroll_timers [OF assms(2)] show ?thesis
    by (auto simp add: onScroll_fields)
next
  case (TimerFires t' canceled)
  show ?thesis
  proof (cases "timers w t'")
    case None
    with assms TimerFires show ?thesis by (simp add: deliver_def)
  next
    case (Some cl)
    obtain ev c where cl: "cl = (ev, c)" by (cases cl)
    from assms(1) TimerFires Some cl
    have "onTouchHold ev c canceled (w\<lparr>timers := (timers w)(t' := None)\<rparr>) = Inr w'"
      by (simp add: deliver_def)
    from onTouchHold_result(5,7) [OF this] assms(2,3) show ?thesis by simp
  qed
qed

lemma run_timers:
  assumes "run pg is w = Inr w'" and "timers w t = None" and "t < nextTimer w"
  shows "timers w' t = None \<and> t < nextTimer w'"
  using assms
proof (induction "is" arbitrary: w)
  case Nil
  then show ?case by simp
next
  case (Cons i "is")
  from Cons.prems(1) obtain w1 where d: "deliver pg i w = Inr w1" and r: "run pg is w1 = Inr w'"
    by (cases "deliver pg i w") auto
  from deliver_timers [OF d Cons.prems(2,3)] have "timers w1 t = None" "t < nextTimer w1"
    by simp_all
  from Cons.IH [OF r this] show ?case .
qed

text \<open>
  The three states of the concrete page, written out.
\<close>

lemma example_pending_eq:
  "example_pending =
     \<lparr>containers = [Element 3], delay = Some 100, currentContainer = Some (Element 3),
      currentScrollableParent = Some (Element 2), dragging = False, tapTimeout = Some 1,
      listeners = {(Element 2, scroll, OnScroll), (Element 3, contextmenu, OnContextMenu),
                   (Document, scroll, OnScroll), (Document, touchstart, OnTouchStart)},
      timers = [1 \<mapsto> (preventDefault (touch_at (Element 4) 10 10), Element 3)],
      nextTimer = 2, triggered = []\<rparr>"
proof -
  have "closest example_page (touch_event.target (touch_at (Element 4) 10 10))
          (\<lambda>n. n \<in> set (containers (attach example_sensor))) = Some (Element 3)"
    by (simp add: closest_def example_page_def touch_at_def attach_def addEventListener_def
        example_sensor_def)
  from onTouchStart_Some [OF this] show ?thesis
    by (simp add: example_pending_def closest_def example_page_def attach_def addEventListener_def
        example_sensor_def)
qed

lemma example_dragging_eq:
  "example_dragging =
     \<lparr>containers = [Element 3], delay = Some 100, currentContainer = Some (Element 3),
      currentScrollableParent = Some (Element 2), dragging = True, tapTimeout = Some 1,
      listeners = {(Document, touchmove, OnTouchMove), (Document, touchcancel, OnTouchEnd),
                   (Document, touchend, OnTouchEnd),
                   (Element 2, scroll, OnScroll), (Element 3, contextmenu, OnContextMenu),
                   (Document, scroll, OnScroll), (Document, touchstart, OnTouchStart)},
      timers = Map.empty,
      nextTimer = 2,
      triggered =
        [(Some (Element 3),
          DragStartSensorEvent
            \<lparr>clientX = 10, clientY = 10, target = Some (Element 4), container = Some (Element 3),
             originalEvent = preventDefault (touch_at (Element 4) 10 10)\<rparr>)]\<rparr>"
  by (simp add: example_dragging_def example_pending_eq deliver_def onTouchHold_def Let_def
      trigger_def addEventListener_def first_touch_def preventDefault_def touch_at_def)

lemma example_canceled_eq:
  "example_canceled =
     \<lparr>containers = [Element 3], delay = Some 100, currentContainer = Some (Element 3),
      currentScrollableParent = Some (Element 2), dragging = False, tapTimeout = Some 1,
      listeners = {(Element 2, scroll, OnScroll), (Element 3, contextmenu, OnContextMenu),
                   (Document, scroll, OnScroll), (Document, touchstart, OnTouchStart)},
      timers = Map.empty,
      nextTimer = 2,
      triggered =
        [(Some (Element 3),
          DragStartSensorEvent
            \<lparr>clientX = 10, clientY = 10, target = Some (Element 4), container = Some (Element 3),
             originalEvent = preventDefault (touch_at (Element 4) 10 10)\<rparr>)]\<rparr>"
  by (simp add: example_canceled_def example_pending_eq deliver_def onTouchHold_def Let_def
      trigger_def addEventListener_def first_touch_def preventDefault_def touch_at_def)

lemmas eval_defs = deliver_def onTouchStart_def onTouchHold_def onTouchMove_def onTouchEnd_def
  onScroll_def attach_def closest_def first_touch_def addEventListener_def
  removeEventListener_def setTimeout_def clearTimeout_def trigger_def preventDefault_def
  stopPropagation_def Let_def example_page_def example_sensor_def touch_at_def lift_at_def
  no_touch_def

section \<open>The claims\<close>

subsection \<open>C1: a genuine end dispatches exactly one stop event\<close>

text \<open>
  Claim C1. For a gesture whose start event was not canceled (\<^verbatim>\<open>dragging\<close> is true,
  see \<open>onTouchHold_result\<close>), the touch-end or touch-cancel handler, run on an event that
  carries a touch point, appends exactly one stop event to the dispatched events. It is
  dispatched to the recorded container \<^verbatim>\<open>currentContainer\<close>, and its \<^verbatim>\<open>target\<close> is
  null. The handler leaves \<^verbatim>\<open>dragging\<close> false and the touch-end, touch-cancel and
  touch-move listeners removed from the document, so that the handler run again returns at
  its guard, and no later touch event or scroll dispatches anything.
\<close>

theorem onTouchEnd_one_stop_event:
  assumes "dragging w" and "touches event \<noteq> [] \<or> changedTouches event \<noteq> []"
  shows "\<exists>w'. onTouchEnd event w = Inr (preventDefault event, w')
     \<and> triggered w' = triggered w @
           [(currentContainer w,
             DragStopSensorEvent
               \<lparr>clientX = pageX (if touches event \<noteq> [] then hd (touches event) else hd (changedTouches event)),
                clientY = pageY (if touches event \<noteq> [] then hd (touches event) else hd (changedTouches event)),
                target = None, container = currentContainer w,
                originalEvent = preventDefault event\<rparr>)]
     \<and> \<not> dragging w'
     \<and> (Document, touchend, OnTouchEnd) \<notin> listeners w'
     \<and> (Document, touchcancel, OnTouchEnd) \<notin> listeners w'
     \<and> (Document, touchmove, OnTouchMove) \<notin> listeners w'
     \<and> (\<forall>event2. onTouchEnd event2 w' = Inr (event2, w'))
     \<and> (\<forall>is. list_all touch_or_scroll is \<longrightarrow>
           (\<exists>w''. run pg is w' = Inr w'' \<and> triggered w'' = triggered w'))"
proof -
  from onTouchEnd_dragging [OF assms(1) first_touch_Some [OF assms(2)]]
  obtain w' where e: "onTouchEnd event w = Inr (preventDefault event, w')"
    and t: "triggered w' = triggered w @
           [(currentContainer w,
             DragStopSensorEvent
               \<lparr>clientX = pageX (if touches event \<noteq> [] then hd (touches event) else hd (changedTouches event)),
                clientY = pageY (if touches event \<noteq> [] then hd (touches event) else hd (changedTouches event)),
                target = None, container = currentContainer w,
                originalEvent = preventDefault event\<rparr>)]"
    and l: "listeners w' =
           listeners w
             - {(Document, scroll, OnScroll), (currentTarget event, contextmenu, OnContextMenu),
                (Document, touchend, OnTouchEnd), (Document, touchcancel, OnTouchEnd),
                (Document, touchmove, OnTouchMove)}
             - (case currentScrollableParent w of Some p \<Rightarrow> {(p, scroll, OnScroll)} | None \<Rightarrow> {})"
    and d: "dragging w' = False"
    by blast
  have r: "\<exists>w''. run pg is w' = Inr w'' \<and> triggered w'' = triggered w'"
    if "list_all touch_or_scroll is" for "is"
  proof -
    from d have "\<not> dragging w'" by simp
    from run_not_dragging [OF this that, of pg] obtain w'' where
      "run pg is w' = Inr w''" and "w'' = w'\<lparr>timers := timers w''\<rparr>" by blast
    then show ?thesis using only_timers_fields(2) by blast
  qed
  from e t l d r show ?thesis
    by (auto simp add: onTouchEnd_not_dragging)
qed

text \<open>
  The theorem at the dragging state of the concrete page, and the whole gesture run from
  the attached sensor: one start event, one stop event, whatever touch-ends follow.
\<close>

theorem onTouchEnd_one_stop_event_witness:
  "dragging example_dragging
   \<and> (\<exists>w'. onTouchEnd (lift_at (Element 4) 20 130) example_dragging =
            Inr (preventDefault (lift_at (Element 4) 20 130), w')
        \<and> triggered w' = triggered example_dragging @
             [(Some (Element 3),
               DragStopSensorEvent
                 \<lparr>clientX = 20, clientY = 130, target = None, container = Some (Element 3),
                  originalEvent = preventDefault (lift_at (Element 4) 20 130)\<rparr>)]
        \<and> \<not> dragging w'
        \<and> (Document, touchend, OnTouchEnd) \<notin> listeners w'
        \<and> (Document, touchcancel, OnTouchEnd) \<notin> listeners w'
        \<and> (Document, touchmove, OnTouchMove) \<notin> listeners w'
        \<and> onTouchEnd (lift_at (Element 4) 20 130) w' = Inr (lift_at (Element 4) 20 130, w')
        \<and> (\<exists>w''. run example_page
                    [Touch touchend (lift_at (Element 4) 20 130),
                     Touch touchcancel (lift_at (Element 4) 20 130),
                     Touch touchmove (touch_at (Element 4) 25 135)] w' = Inr w''
               \<and> triggered w'' = triggered w'))
   \<and> map_sum id triggered
       (run example_page
          [Touch touchstart (touch_at (Element 4) 10 10), TimerFires 1 False,
           Touch touchend (lift_at (Element 4) 20 130),
           Touch touchcancel (lift_at (Element 4) 20 130),
           Touch touchend (lift_at (Element 4) 20 130)]
          (attach example_sensor)) =
       Inr [(Some (Element 3),
             DragStartSensorEvent
               \<lparr>clientX = 10, clientY = 10, target = Some (Element 4), container = Some (Element 3),
                originalEvent = preventDefault (touch_at (Element 4) 10 10)\<rparr>),
            (Some (Element 3),
             DragStopSensorEvent
               \<lparr>clientX = 20, clientY = 130, target = None, container = Some (Element 3),
                originalEvent = preventDefault (lift_at (Element 4) 20 130)\<rparr>)]"
proof -
  have r: "map_sum id triggered
       (run example_page
          [Touch touchstart (touch_at (Element 4) 10 10), TimerFires 1 False,
           Touch touchend (lift_at (Element 4) 20 130),
           Touch touchcancel (lift_at (Element 4) 20 130),
           Touch touchend (lift_at (Element 4) 20 130)]
          (attach example_sensor)) =
       Inr [(Some (Element 3),
             DragStartSensorEvent
               \<lparr>clientX = 10, clientY = 10, target = Some (Element 4), container = Some (Element 3),
                originalEvent = preventDefault (touch_at (Element 4) 10 10)\<rparr>),
            (Some (Element 3),
             DragStopSensorEvent
               \<lparr>clientX = 20, clientY = 130, target = None, container = Some (Element 3),
                originalEvent = preventDefault (lift_at (Element 4) 20 130)\<rparr>)]"
    by (simp add: eval_defs)
  have d: "dragging example_dragging" by (simp add: example_dragging_eq)
  have t: "touches (lift_at (Element 4) 20 130) \<noteq> [] \<or> changedTouches (lift_at (Element 4) 20 130) \<noteq> []"
    by (simp add: lift_at_def)
  have c: "currentContainer example_dragging = Some (Element 3)" by (simp add: example_dragging_eq)
  have l: "list_all touch_or_scroll
             [Touch touchend (lift_at (Element 4) 20 130),
              Touch touchcancel (lift_at (Element 4) 20 130),
              Touch touchmove (touch_at (Element 4) 25 135)]" by simp
  have p: "pageX (if touches (lift_at (Element 4) 20 130) \<noteq> [] then hd (touches (lift_at (Element 4) 20 130))
                  else hd (changedTouches (lift_at (Element 4) 20 130))) = 20"
    "pageY (if touches (lift_at (Element 4) 20 130) \<noteq> [] then hd (touches (lift_at (Element 4) 20 130))
                  else hd (changedTouches (lift_at (Element 4) 20 130))) = 130"
    by (simp_all add: lift_at_def)
  from onTouchEnd_one_stop_event [OF d t, of example_page, unfolded c p] l d r
  show ?thesis by blast
qed

subsection \<open>C2: the context-menu suppressor of the container is not removed\<close>

text \<open>
  Claim C2. On a genuine end the handler removes the scroll listener of the document and
  the one of the recorded scrollable ancestor, as \<open>onTouchEnd_Some\<close> shows. The
  context-menu suppressor is removed from \<^verbatim>\<open>event.currentTarget\<close>, which is the
  document, since that is where the handler is registered; the suppressor that touch-start
  added to the container stays (\<open>onTouchEnd_keeps_suppressor\<close>, for any node other than
  the current target). After a complete gesture on the concrete page, the
  recorded container is reset, the suppressor is still registered on element 3, and the
  two scroll listeners are gone.
\<close>

theorem contextmenu_suppressor_kept_after_gesture:
  "map_sum id
     (\<lambda>w. (currentContainer w,
           (Element 3, contextmenu, OnContextMenu) \<in> listeners w,
           (Document, scroll, OnScroll) \<in> listeners w,
           (Element 2, scroll, OnScroll) \<in> listeners w))
     (run example_page
        [Touch touchstart (touch_at (Element 4) 10 10), TimerFires 1 False,
         Touch touchend (lift_at (Element 4) 20 130)]
        (attach example_sensor)) =
   Inr (None, True, False, False)"
  by (simp add: eval_defs)

subsection \<open>C3: what a genuine end resets\<close>

text \<open>
  Claim C3, as the code has it. On touch-end or touch-cancel while dragging, with a touch
  point present, \<^verbatim>\<open>currentContainer\<close> is reset to none, \<^verbatim>\<open>dragging\<close> to false,
  and the timer whose handle \<^verbatim>\<open>tapTimeout\<close> holds is cancelled.
  \<^verbatim>\<open>currentScrollableParent\<close> is not reset: it keeps the recorded value, and
  \<^verbatim>\<open>tapTimeout\<close> keeps the handle.
\<close>

theorem onTouchEnd_resets_fields:
  assumes "dragging w" and "touches event \<noteq> [] \<or> changedTouches event \<noteq> []"
  shows "\<exists>w'. onTouchEnd event w = Inr (preventDefault event, w')
     \<and> currentContainer w' = None
     \<and> dragging w' = False
     \<and> (\<forall>t. tapTimeout w = Some t \<longrightarrow> timers w' t = None)
     \<and> currentScrollableParent w' = currentScrollableParent w
     \<and> tapTimeout w' = tapTimeout w"
  using onTouchEnd_dragging [OF assms(1) first_touch_Some [OF assms(2)]]
  by auto

theorem onTouchEnd_resets_fields_witness:
  "dragging example_dragging
   \<and> currentScrollableParent example_dragging = Some (Element 2)
   \<and> tapTimeout example_dragging = Some 1
   \<and> (\<exists>w'. onTouchEnd (lift_at (Element 4) 20 130) example_dragging =
            Inr (preventDefault (lift_at (Element 4) 20 130), w')
        \<and> currentContainer w' = None
        \<and> dragging w' = False
        \<and> timers w' 1 = None
        \<and> currentScrollableParent w' = Some (Element 2)
        \<and> tapTimeout w' = Some 1)"
proof -
  have d: "dragging example_dragging" by (simp add: example_dragging_eq)
  have t: "touches (lift_at (Element 4) 20 130) \<noteq> [] \<or> changedTouches (lift_at (Element 4) 20 130) \<noteq> []"
    by (simp add: lift_at_def)
  have s: "currentScrollableParent example_dragging = Some (Element 2)"
    and h: "tapTimeout example_dragging = Some 1"
    by (simp_all add: example_dragging_eq)
  from onTouchEnd_resets_fields [OF d t] obtain w' where
    "onTouchEnd (lift_at (Element 4) 20 130) example_dragging =
            Inr (preventDefault (lift_at (Element 4) 20 130), w')"
    "currentContainer w' = None" "dragging w' = False"
    "\<forall>t. tapTimeout example_dragging = Some t \<longrightarrow> timers w' t = None"
    "currentScrollableParent w' = currentScrollableParent example_dragging"
    "tapTimeout w' = tapTimeout example_dragging"
    by blast
  with d s h show ?thesis by auto
qed

text \<open>
  Claim C3 as stated fails: after a complete gesture on the concrete page,
  \<^verbatim>\<open>currentScrollableParent\<close> is still element 2.
\<close>

theorem scrollable_parent_kept_after_gesture:
  "map_sum id currentScrollableParent
     (run example_page
        [Touch touchstart (touch_at (Element 4) 10 10), TimerFires 1 False,
         Touch touchend (lift_at (Element 4) 20 130)]
        (attach example_sensor)) = Inr (Some (Element 2))"
  by (simp add: eval_defs)

subsection \<open>C4: a canceled start event\<close>

text \<open>
  Claim C4. When the closure of the timer runs and the start event is canceled,
  \<^verbatim>\<open>dragging\<close> is false and \<^verbatim>\<open>currentContainer\<close> is the matched container. The
  move and the end handler return at their guard, and every run of touch events other
  than touch-start and of scrolls ends with \<^verbatim>\<open>dragging\<close> false, the same
  \<^verbatim>\<open>currentContainer\<close>, and no further event dispatched.
\<close>

theorem canceled_start_dispatches_nothing:
  assumes "onTouchHold event c True w0 = Inr w" and "list_all touch_or_scroll is"
  shows "dragging w = False
     \<and> currentContainer w = Some c
     \<and> (\<forall>event2. onTouchMove pg event2 w = Inr (event2, w) \<and> onTouchEnd event2 w = Inr (event2, w))
     \<and> (\<exists>w'. run pg is w = Inr w' \<and> dragging w' = False \<and> triggered w' = triggered w
              \<and> currentContainer w' = Some c)"
proof -
  from onTouchHold_result [OF assms(1)]
  have d: "\<not> dragging w" and c: "currentContainer w = Some c" by simp_all
  from run_not_dragging [OF d assms(2), of pg] obtain w' where
    r: "run pg is w = Inr w'" and e: "w' = w\<lparr>timers := timers w'\<rparr>" by blast
  from e have "dragging w' = dragging w" "triggered w' = triggered w"
    "currentContainer w' = currentContainer w"
    by (rule only_timers_fields)+
  with d c r show ?thesis
    by (simp add: onTouchMove_not_dragging onTouchEnd_not_dragging)
qed

theorem canceled_start_dispatches_nothing_witness:
  "onTouchHold (preventDefault (touch_at (Element 4) 10 10)) (Element 3) True
     (example_pending\<lparr>timers := Map.empty\<rparr>) = Inr example_canceled
   \<and> dragging example_canceled = False
   \<and> currentContainer example_canceled = Some (Element 3)
   \<and> onTouchMove example_page (touch_at (Element 4) 20 130) example_canceled =
       Inr (touch_at (Element 4) 20 130, example_canceled)
   \<and> onTouchEnd (lift_at (Element 4) 20 130) example_canceled =
       Inr (lift_at (Element 4) 20 130, example_canceled)
   \<and> (\<exists>w'. run example_page
               [Touch touchmove (touch_at (Element 4) 20 130), ScrollAt Document,
                Touch touchend (lift_at (Element 4) 20 130)] example_canceled = Inr w'
          \<and> dragging w' = False \<and> triggered w' = triggered example_canceled
          \<and> currentContainer w' = Some (Element 3))"
proof -
  have h: "onTouchHold (preventDefault (touch_at (Element 4) 10 10)) (Element 3) True
     (example_pending\<lparr>timers := Map.empty\<rparr>) = Inr example_canceled"
    by (simp add: example_canceled_eq example_pending_eq onTouchHold_def Let_def trigger_def
        first_touch_def preventDefault_def touch_at_def)
  have l: "list_all touch_or_scroll
             [Touch touchmove (touch_at (Element 4) 20 130), ScrollAt Document,
              Touch touchend (lift_at (Element 4) 20 130)]" by simp
  from canceled_start_dispatches_nothing [OF h l, of example_page] h
  show ?thesis by blast
qed

subsection \<open>C5: a scroll does not cancel every pending timer\<close>

text \<open>
  The scroll handler cancels the timer whose handle \<^verbatim>\<open>tapTimeout\<close> holds. It runs for a
  scroll of any node the scroll listener is registered on, and from then on that timer is
  never pending again: firing its handle does nothing.
\<close>

lemma onScroll_cancels_held_timer:
  assumes "tapTimeout w = Some t" and "t < nextTimer w"
  shows "timers (onScroll w) t = None
     \<and> (\<forall>n. (n, scroll, OnScroll) \<in> listeners w \<longrightarrow> deliver pg (ScrollAt n) w = Inr (onScroll w))
     \<and> (\<forall>is w'. run pg is (onScroll w) = Inr w' \<longrightarrow>
           timers w' t = None \<and> deliver pg (TimerFires t canceled) w' = Inr w')"
proof -
  from assms(1) have g: "timers (onScroll w) t = None"
    by (simp add: onScroll_def clearTimeout_def)
  from assms(2) have n: "t < nextTimer (onScroll w)" by (simp add: onScroll_fields)
  have "timers w' t = None \<and> deliver pg (TimerFires t canceled) w' = Inr w'"
    if "run pg is (onScroll w) = Inr w'" for "is" w'
    using run_timers [OF that g n] by (simp add: deliver_TimerFires)
  with g show ?thesis by (simp add: deliver_def)
qed

lemma onScroll_cancels_held_timer_example:
  "tapTimeout example_pending = Some 1
   \<and> timers example_pending 1 \<noteq> None
   \<and> timers (onScroll example_pending) 1 = None
   \<and> deliver example_page (ScrollAt Document) example_pending = Inr (onScroll example_pending)
   \<and> deliver example_page (ScrollAt (Element 2)) example_pending = Inr (onScroll example_pending)
   \<and> deliver example_page (TimerFires 1 False) (onScroll example_pending) = Inr (onScroll example_pending)
   \<and> (\<exists>w'. run example_page [Touch touchstart (touch_at (Element 4) 30 30)] (onScroll example_pending) = Inr w'
          \<and> timers w' 1 = None
          \<and> deliver example_page (TimerFires 1 False) w' = Inr w')"
proof -
  have h: "tapTimeout example_pending = Some 1" and n: "1 < nextTimer example_pending"
    and p: "timers example_pending 1 \<noteq> None"
    and l: "(Document, scroll, OnScroll) \<in> listeners example_pending"
      "(Element 2, scroll, OnScroll) \<in> listeners example_pending"
    by (simp_all add: example_pending_eq)
  note r = onScroll_cancels_held_timer [OF h n, of example_page False]
  have e: "run example_page [] (onScroll example_pending) = Inr (onScroll example_pending)"
    by simp
  have "(Document, touchstart, OnTouchStart) \<in> listeners (onScroll example_pending)"
    by (simp add: onScroll_fields example_pending_eq)
  then obtain w' where
    s: "run example_page [Touch touchstart (touch_at (Element 4) 30 30)] (onScroll example_pending) = Inr w'"
    by (simp add: deliver_def Let_def)
  from r e s h p l show ?thesis by blast
qed

text \<open>
  Claim C5. The claim is that a scroll processed while a gesture is pending cancels its
  timer, so that its start event is never dispatched; the comment of the scroll handler
  says the same (cancel the potential drag and allow the scroll). The code misses it when
  a touch-start follows another within the delay: line 87 overwrites \<^verbatim>\<open>tapTimeout\<close>
  without clearing the timer already pending, and the scroll handler can then reach the
  second timer only. On the concrete page, after two touch-starts both timers are pending;
  the scroll cancels the second; the first fires afterwards and dispatches the start event
  of the first touch-start. With one finger (a tap, a press, a scroll) the drag starts all
  the same, and the next touch-move dispatches a move event.
\<close>

theorem earlier_timer_survives_scroll:
  "map_sum id (\<lambda>w. (tapTimeout w, timers w 1 \<noteq> None, timers w 2, (Document, scroll, OnScroll) \<in> listeners w))
     (run example_page
        [Touch touchstart (touch_at (Element 4) 10 10), Touch touchstart (touch_at (Element 4) 30 30)]
        (attach example_sensor)) = Inr (Some 2, True, Some (preventDefault (touch_at (Element 4) 30 30), Element 3), True)
   \<and> map_sum id (\<lambda>w. (timers w 1 \<noteq> None, timers w 2))
     (run example_page
        [Touch touchstart (touch_at (Element 4) 10 10), Touch touchstart (touch_at (Element 4) 30 30),
         ScrollAt Document]
        (attach example_sensor)) = Inr (True, None)
   \<and> map_sum id triggered
     (run example_page
        [Touch touchstart (touch_at (Element 4) 10 10), Touch touchstart (touch_at (Element 4) 30 30),
         ScrollAt Document, TimerFires 1 False]
        (attach example_sensor)) =
     Inr [(Some (Element 3),
           DragStartSensorEvent
             \<lparr>clientX = 10, clientY = 10, target = Some (Element 4), container = Some (Element 3),
              originalEvent = preventDefault (touch_at (Element 4) 10 10)\<rparr>)]
   \<and> map_sum id triggered
     (run example_page
        [Touch touchstart (touch_at (Element 4) 10 10), Touch touchend (lift_at (Element 4) 10 10),
         Touch touchstart (touch_at (Element 4) 30 30), ScrollAt Document, TimerFires 1 False,
         Touch touchmove (touch_at (Element 4) 40 90)]
        (attach example_sensor)) =
     Inr [(Some (Element 3),
           DragStartSensorEvent
             \<lparr>clientX = 10, clientY = 10, target = Some (Element 4), container = Some (Element 3),
              originalEvent = preventDefault (touch_at (Element 4) 10 10)\<rparr>),
          (Some (Element 3),
           DragMoveSensorEvent
             \<lparr>clientX = 40, clientY = 90, target = Some (Element 4), container = Some (Element 3),
              originalEvent = preventDefault (stopPropagation (touch_at (Element 4) 40 90))\<rparr>)]"
  by (simp add: eval_defs)

subsection \<open>C6: the scroll handler changes the timer only\<close>

text \<open>
  Claim C6. In the state a touch-start with a container leaves, the scroll handler changes
  the timer table only, at the handle just armed: the listener table is the same, with
  the scroll listener of the document, the context-menu suppressor of the container and
  the scroll listener of the scrollable ancestor still registered, and
  \<^verbatim>\<open>currentContainer\<close> and \<^verbatim>\<open>currentScrollableParent\<close> are unchanged.
\<close>

theorem onScroll_changes_only_timer:
  assumes "closest pg (touch_event.target event) (\<lambda>n. n \<in> set (containers w0)) = Some c"
    and "onTouchStart pg event w0 = (event1, w)"
  shows "onScroll w = w\<lparr>timers := (timers w)(nextTimer w0 := None)\<rparr>
       \<and> listeners (onScroll w) = listeners w
       \<and> (Document, scroll, OnScroll) \<in> listeners (onScroll w)
       \<and> (c, contextmenu, OnContextMenu) \<in> listeners (onScroll w)
       \<and> (\<forall>p. currentScrollableParent w = Some p \<longrightarrow> (p, scroll, OnScroll) \<in> listeners (onScroll w))
       \<and> currentContainer (onScroll w) = Some c
       \<and> currentContainer (onScroll w) = currentContainer w
       \<and> currentScrollableParent (onScroll w) = currentScrollableParent w"
  using onTouchStart_matched [OF assms]
  by (auto simp add: onScroll_def clearTimeout_def)

theorem onScroll_changes_only_timer_witness:
  "onTouchStart example_page (touch_at (Element 4) 10 10) (attach example_sensor) =
     (preventDefault (touch_at (Element 4) 10 10), example_pending)
   \<and> timers example_pending 1 \<noteq> None
   \<and> onScroll example_pending = example_pending\<lparr>timers := Map.empty\<rparr>
   \<and> (Document, scroll, OnScroll) \<in> listeners (onScroll example_pending)
   \<and> (Element 3, contextmenu, OnContextMenu) \<in> listeners (onScroll example_pending)
   \<and> (Element 2, scroll, OnScroll) \<in> listeners (onScroll example_pending)
   \<and> currentContainer (onScroll example_pending) = Some (Element 3)
   \<and> currentScrollableParent (onScroll example_pending) = Some (Element 2)"
proof -
  have m: "closest example_page (touch_event.target (touch_at (Element 4) 10 10))
          (\<lambda>n. n \<in> set (containers (attach example_sensor))) = Some (Element 3)"
    by (simp add: closest_def example_page_def touch_at_def attach_def addEventListener_def
        example_sensor_def)
  have s: "onTouchStart example_page (touch_at (Element 4) 10 10) (attach example_sensor) =
     (preventDefault (touch_at (Element 4) 10 10), example_pending)"
    by (simp add: example_pending_def onTouchStart_Some [OF m])
  have p: "currentScrollableParent example_pending = Some (Element 2)"
    "timers example_pending 1 \<noteq> None"
    "(timers example_pending)(nextTimer (attach example_sensor) := None) = Map.empty"
    by (simp_all add: example_pending_eq attach_def addEventListener_def example_sensor_def)
  from onScroll_changes_only_timer [OF m s] s p show ?thesis
    by auto
qed

subsection \<open>C7: a touch-start outside every container\<close>

text \<open>
  Claim C7. When no node of the target's chain is a registered container, the touch-start
  handler returns the event and the state as they were: no field changes, no listener is
  added, no timer is armed, and \<^verbatim>\<open>defaultPrevented\<close> is not set. The same holds for
  the event delivered by the page.
\<close>

theorem onTouchStart_without_container:
  assumes "set (chain pg (touch_event.target event)) \<inter> set (containers w) = {}"
  shows "onTouchStart pg event w = (event, w)
    \<and> deliver pg (Touch touchstart event) w = Inr w"
  using closest_None [OF assms]
  by (simp add: onTouchStart_def deliver_def Let_def)

theorem onTouchStart_without_container_witness:
  "onTouchStart example_page (touch_at (Element 9) 10 10) (attach example_sensor) =
     (touch_at (Element 9) 10 10, attach example_sensor)
   \<and> defaultPrevented (fst (onTouchStart example_page (touch_at (Element 9) 10 10) (attach example_sensor))) = False
   \<and> deliver example_page (Touch touchstart (touch_at (Element 9) 10 10)) (attach example_sensor) =
     Inr (attach example_sensor)"
proof -
  have "set (chain example_page (touch_event.target (touch_at (Element 9) 10 10)))
          \<inter> set (containers (attach example_sensor)) = {}"
    by (simp add: example_page_def touch_at_def attach_def addEventListener_def example_sensor_def)
  from onTouchStart_without_container [OF this] show ?thesis
    by (simp add: touch_at_def)
qed

subsection \<open>C8: the move event\<close>

text \<open>
  Claim C8. While dragging, a touch-move that carries a touch point dispatches one move
  event to the recorded container. Its \<^verbatim>\<open>clientX\<close> and \<^verbatim>\<open>clientY\<close> are the page
  coordinates of the first active touch point, or of the first changed one when no point
  is active, and its \<^verbatim>\<open>target\<close> is the element at these coordinates minus the
  window scroll offset.
\<close>

theorem onTouchMove_event:
  assumes "dragging w" and "touches event \<noteq> [] \<or> changedTouches event \<noteq> []"
  shows "onTouchMove pg event w =
    (let touch = (if touches event \<noteq> [] then hd (touches event) else hd (changedTouches event));
         event1 = event\<lparr>propagationStopped := True, defaultPrevented := True\<rparr>
     in Inr (event1,
          w\<lparr>triggered := triggered w @
            [(currentContainer w,
              DragMoveSensorEvent
                \<lparr>clientX = pageX touch, clientY = pageY touch,
                 target = elementFromPoint pg (pageX touch - scrollX pg) (pageY touch - scrollY pg),
                 container = currentContainer w, originalEvent = event1\<rparr>)]\<rparr>))"
proof -
  have "first_touch (preventDefault (stopPropagation event)) = first_touch event"
    by (simp add: first_touch_def preventDefault_def stopPropagation_def split: list.splits)
  with first_touch_Some [OF assms(2)] assms(1) show ?thesis
    by (simp add: onTouchMove_def Let_def trigger_def preventDefault_def stopPropagation_def)
qed

text \<open>
  On the concrete page the window is scrolled by 50: the point (20, 130) is element 4 only
  after the offset is subtracted.
\<close>

theorem onTouchMove_event_witness:
  "onTouchMove example_page (touch_at (Element 4) 20 130) example_dragging =
     Inr ((touch_at (Element 4) 20 130)\<lparr>propagationStopped := True, defaultPrevented := True\<rparr>,
          example_dragging\<lparr>triggered := triggered example_dragging @
            [(Some (Element 3),
              DragMoveSensorEvent
                \<lparr>clientX = 20, clientY = 130, target = Some (Element 4),
                 container = Some (Element 3),
                 originalEvent =
                   (touch_at (Element 4) 20 130)\<lparr>propagationStopped := True, defaultPrevented := True\<rparr>\<rparr>)]\<rparr>)"
proof -
  have d: "dragging example_dragging" by (simp add: example_dragging_eq)
  have t: "touches (touch_at (Element 4) 20 130) \<noteq> [] \<or> changedTouches (touch_at (Element 4) 20 130) \<noteq> []"
    by (simp add: touch_at_def)
  have c: "currentContainer example_dragging = Some (Element 3)" by (simp add: example_dragging_eq)
  from onTouchMove_event [OF d t, of example_page] show ?thesis
    by (simp add: Let_def c example_page_def touch_at_def)
qed

subsection \<open>C9: an event without touch points\<close>

text \<open>
  Claim C9. At the three places where a touch point is read (the closure of the timer, the
  move handler while dragging, the end handler while dragging), an event whose two touch
  lists are both empty makes the handler fault, and an event with a touch point in either
  list does not.
\<close>

theorem empty_touch_lists_fault:
  assumes "dragging w"
  shows "(touches event = [] \<and> changedTouches event = [] \<longrightarrow>
            first_touch event = None
          \<and> onTouchHold event c canceled w0 = Inl TypeError
          \<and> onTouchMove pg event w = Inl TypeError
          \<and> onTouchEnd event w = Inl TypeError)
       \<and> (touches event \<noteq> [] \<or> changedTouches event \<noteq> [] \<longrightarrow>
            first_touch event \<noteq> None
          \<and> (\<exists>w'. onTouchHold event c canceled w0 = Inr w')
          \<and> (\<exists>r. onTouchMove pg event w = Inr r)
          \<and> (\<exists>r. onTouchEnd event w = Inr r))"
proof (intro conjI impI)
  assume e: "touches event = [] \<and> changedTouches event = []"
  then show n: "first_touch event = None" by (simp add: first_touch_None)
  from n show "onTouchHold event c canceled w0 = Inl TypeError"
    by (simp add: onTouchHold_def)
  from n assms show "onTouchMove pg event w = Inl TypeError"
    by (simp add: onTouchMove_def Let_def)
  from n assms show "onTouchEnd event w = Inl TypeError"
    by (simp add: onTouchEnd_def Let_def removeEventListener_def clearTimeout_def
        split: option.splits)
next
  assume "touches event \<noteq> [] \<or> changedTouches event \<noteq> []"
  then obtain t where s: "first_touch event = Some t"
    using first_touch_Some by blast
  then show "first_touch event \<noteq> None" by simp
  from s show "\<exists>w'. onTouchHold event c canceled w0 = Inr w'"
    by (simp add: onTouchHold_def Let_def)
  from s assms show "\<exists>r. onTouchMove pg event w = Inr r"
    by (simp add: onTouchMove_def Let_def)
  from s assms show "\<exists>r. onTouchEnd event w = Inr r"
    by (simp add: onTouchEnd_def Let_def removeEventListener_def clearTimeout_def
        split: option.splits)
qed

theorem empty_touch_lists_fault_witness:
  "dragging example_dragging
   \<and> onTouchHold (no_touch (Element 4)) (Element 3) False example_pending = Inl TypeError
   \<and> onTouchMove example_page (no_touch (Element 4)) example_dragging = Inl TypeError
   \<and> onTouchEnd (no_touch (Element 4)) example_dragging = Inl TypeError
   \<and> (\<exists>w'. onTouchHold (lift_at (Element 4) 20 130) (Element 3) False example_pending = Inr w')
   \<and> (\<exists>r. onTouchMove example_page (lift_at (Element 4) 20 130) example_dragging = Inr r)
   \<and> (\<exists>r. onTouchEnd (lift_at (Element 4) 20 130) example_dragging = Inr r)"
proof -
  have d: "dragging example_dragging" by (simp add: example_dragging_eq)
  from empty_touch_lists_fault [OF d, of "no_touch (Element 4)" "Element 3" False example_pending example_page]
    empty_touch_lists_fault [OF d, of "lift_at (Element 4) 20 130" "Element 3" False example_pending example_page]
    d
  show ?thesis by (simp add: no_touch_def lift_at_def)
qed

subsection \<open>C10: nothing is cleaned up after a canceled start event\<close>

text \<open>
  Claim C10. A touch-start finds a container, its timer fires and the start event is
  canceled. The closure adds no listener, so the touch-end, touch-cancel and touch-move
  listeners are registered after it exactly if they were before the touch-start; the end
  handler, were it run, returns at its guard; and every run of touch events other than
  touch-start and of scrolls leaves the whole state as it is: the scroll listener of the
  document, the context-menu suppressor of the container, the scroll listener of the
  scrollable ancestor and \<^verbatim>\<open>currentContainer\<close> all persist.
\<close>

theorem canceled_start_no_cleanup:
  assumes "closest pg (touch_event.target event) (\<lambda>n. n \<in> set (containers w0)) = Some c"
    and "onTouchStart pg event w0 = (event1, w1)"
    and "deliver pg (TimerFires (nextTimer w0) True) w1 = Inr w2"
    and "list_all touch_or_scroll is"
  shows "listeners w2 = listeners w1
     \<and> (\<forall>ty. ((Document, ty, OnTouchEnd) \<in> listeners w2 \<longleftrightarrow> (Document, ty, OnTouchEnd) \<in> listeners w0)
           \<and> ((Document, ty, OnTouchMove) \<in> listeners w2 \<longleftrightarrow> (Document, ty, OnTouchMove) \<in> listeners w0))
     \<and> dragging w2 = False
     \<and> (\<forall>event2. onTouchEnd event2 w2 = Inr (event2, w2))
     \<and> run pg is w2 = Inr w2
     \<and> (Document, scroll, OnScroll) \<in> listeners w2
     \<and> (c, contextmenu, OnContextMenu) \<in> listeners w2
     \<and> (\<forall>p. currentScrollableParent w2 = Some p \<longrightarrow> (p, scroll, OnScroll) \<in> listeners w2)
     \<and> currentContainer w2 = Some c"
proof -
  note s = onTouchStart_matched [OF assms(1,2)]
  let ?w = "w1\<lparr>timers := (timers w1)(nextTimer w0 := None)\<rparr>"
  from s have "timers w1 (nextTimer w0) = Some (event1, c)" by simp
  from deliver_TimerFires(1) [OF this, of pg True] assms(3)
  have h: "onTouchHold event1 c True ?w = Inr w2" by simp
  note r = onTouchHold_result [OF h]
  from r have d: "\<not> dragging w2" by simp
  from r s have l: "listeners w2 = listeners w1" by simp
  from r s have "\<forall>t. tapTimeout w2 = Some t \<longrightarrow> timers w2 t = None" by simp
  from run_idle [OF d this assms(4)] have i: "run pg is w2 = Inr w2" .
  from r s have p: "currentScrollableParent w2 = currentScrollableParent w1" by simp
  from l s p have "\<forall>p. currentScrollableParent w2 = Some p \<longrightarrow> (p, scroll, OnScroll) \<in> listeners w2"
    by auto
  moreover from l s have "(Document, scroll, OnScroll) \<in> listeners w2"
    "(c, contextmenu, OnContextMenu) \<in> listeners w2" by simp_all
  moreover from l s have "\<forall>ty. ((Document, ty, OnTouchEnd) \<in> listeners w2 \<longleftrightarrow> (Document, ty, OnTouchEnd) \<in> listeners w0)
           \<and> ((Document, ty, OnTouchMove) \<in> listeners w2 \<longleftrightarrow> (Document, ty, OnTouchMove) \<in> listeners w0)"
    by (auto split: option.splits)
  ultimately show ?thesis using d l i r(3)
    by (simp add: onTouchEnd_not_dragging)
qed

theorem canceled_start_no_cleanup_witness:
  "deliver example_page (TimerFires 1 True) example_pending = Inr example_canceled
   \<and> listeners example_canceled = listeners example_pending
   \<and> (Document, touchend, OnTouchEnd) \<notin> listeners example_canceled
   \<and> (Document, touchcancel, OnTouchEnd) \<notin> listeners example_canceled
   \<and> (Document, touchmove, OnTouchMove) \<notin> listeners example_canceled
   \<and> onTouchEnd (lift_at (Element 4) 20 130) example_canceled =
       Inr (lift_at (Element 4) 20 130, example_canceled)
   \<and> run example_page
         [Touch touchmove (touch_at (Element 4) 20 130), ScrollAt Document, ScrollAt (Element 2),
          Touch touchend (lift_at (Element 4) 20 130),
          Touch touchcancel (lift_at (Element 4) 20 130)] example_canceled = Inr example_canceled
   \<and> (Document, scroll, OnScroll) \<in> listeners example_canceled
   \<and> (Element 3, contextmenu, OnContextMenu) \<in> listeners example_canceled
   \<and> (Element 2, scroll, OnScroll) \<in> listeners example_canceled
   \<and> currentContainer example_canceled = Some (Element 3)"
proof -
  have m: "closest example_page (touch_event.target (touch_at (Element 4) 10 10))
          (\<lambda>n. n \<in> set (containers (attach example_sensor))) = Some (Element 3)"
    by (simp add: closest_def example_page_def touch_at_def attach_def addEventListener_def
        example_sensor_def)
  have s: "onTouchStart example_page (touch_at (Element 4) 10 10) (attach example_sensor) =
     (preventDefault (touch_at (Element 4) 10 10), example_pending)"
    by (simp add: example_pending_def onTouchStart_Some [OF m])
  have n: "nextTimer (attach example_sensor) = 1"
    by (simp add: attach_def addEventListener_def example_sensor_def)
  have f: "deliver example_page (TimerFires (nextTimer (attach example_sensor)) True) example_pending =
             Inr example_canceled"
    unfolding n
    by (simp add: example_canceled_eq example_pending_eq deliver_def onTouchHold_def Let_def
        trigger_def first_touch_def preventDefault_def touch_at_def)
  have l: "list_all touch_or_scroll
         [Touch touchmove (touch_at (Element 4) 20 130), ScrollAt Document, ScrollAt (Element 2),
          Touch touchend (lift_at (Element 4) 20 130),
          Touch touchcancel (lift_at (Element 4) 20 130)]" by simp
  have p: "currentScrollableParent example_canceled = Some (Element 2)"
    "(Document, touchend, OnTouchEnd) \<notin> listeners (attach example_sensor)"
    "(Document, touchcancel, OnTouchEnd) \<notin> listeners (attach example_sensor)"
    "(Document, touchmove, OnTouchMove) \<notin> listeners (attach example_sensor)"
    by (simp_all add: example_canceled_eq attach_def addEventListener_def example_sensor_def)
  from canceled_start_no_cleanup [OF m s f l] f [unfolded n] p
  show ?thesis by blast
qed

end
